theory Spec2Isabelle
  imports Complex_Main
begin

section \<open>The robot arm state machine of \<^verbatim>\<open>roarm_v6.py\<close>\<close>

text \<open>
  The development embeds the step/sequence engine of \<^verbatim>\<open>src/roarm_v6.py\<close>: the
  command dispatcher (\<^verbatim>\<open>RobotState._send_command\<close>), the three kinds of state
  (\<^verbatim>\<open>SimpleRobotState\<close>, \<^verbatim>\<open>DropoffSelectionState\<close>, \<^verbatim>\<open>WaitForInputState\<close>),
  the registry (\<^verbatim>\<open>create_state_registry\<close>) and the runner (\<^verbatim>\<open>StateMachine\<close>).

  The program talks to an operator and to a device. Both are made explicit as a
  \<open>world\<close> that every effectful function takes and returns: the lines the operator
  will type, the fate of every HTTP request, and a log of the effects performed so far.
  Python floats are modelled by reals; of the console output only the lines that the
  properties below refer to are kept in the log. Ctrl+C is modelled where the program
  blocks: in \<^verbatim>\<open>input()\<close>, in the request and in \<^verbatim>\<open>time.sleep\<close>. A character
  of the model is a Unicode code point below 256; text with other code points is outside
  the model.
\<close>

subsection \<open>Values, exceptions and the world\<close>

datatype StateResult = SUCCESS | FAILURE | ABORT

text \<open>
  \<^verbatim>\<open>execute\<close> is declared to return a \<^verbatim>\<open>StateResult\<close>, but two states return a
  Python string instead (\<^verbatim>\<open>"REPEAT"\<close>, or the selected key). A returned value is
  therefore a member of the enum or a string.
\<close>

datatype py_value = Enum StateResult | Str string

datatype py_exception =
    KeyboardInterrupt | EOFError | IndexError | KeyError | OverflowError | OSError

text \<open>What the next call of \<^verbatim>\<open>input()\<close> meets: a line, or Ctrl+C. An empty
  list of pending events is the end of the input stream.\<close>

datatype key_event = Line string | CtrlC

text \<open>
  What one call of \<^verbatim>\<open>_send_command\<close> meets. The request
  \<^verbatim>\<open>session.get(url, timeout=0.2)\<close> gets a response with its text, or raises a
  \<^verbatim>\<open>requests.exceptions.Timeout\<close>, another \<^verbatim>\<open>RequestException\<close> or another
  \<^verbatim>\<open>Exception\<close>, or is cut by Ctrl+C (a \<^verbatim>\<open>BaseException\<close>). After a response,
  the wait in \<^verbatim>\<open>time.sleep\<close> goes through (\<open>Response\<close>), is refused by the platform
  with an exception (\<open>SleepException\<close>), or is cut by Ctrl+C (\<open>SleepCtrlC\<close>); the
  last two differ from \<open>Response\<close> only when there is a wait.
\<close>

datatype net_event =
    Response string
  | Timeout
  | RequestException
  | OtherException
  | NetCtrlC
  | SleepException string
  | SleepCtrlC string

datatype effect =
    Request string
  | Sleep real
  | Starting int nat string
  | Warning string
  | SessionClosed

record world =
  stdin :: "key_event list"
  net :: "nat \<Rightarrow> net_event"
  sent :: nat
  log :: "effect list"

definition emit :: "effect \<Rightarrow> world \<Rightarrow> world" where
  "emit e w = w\<lparr>log := log w @ [e]\<rparr>"

definition input :: "world \<Rightarrow> (py_exception + string) \<times> world" where
  "input w =
     (case stdin w of
        [] \<Rightarrow> (Inl EOFError, w)
      | Line s # rest \<Rightarrow> (Inr s, w\<lparr>stdin := rest\<rparr>)
      | CtrlC # rest \<Rightarrow> (Inl KeyboardInterrupt, w\<lparr>stdin := rest\<rparr>))"

text \<open>The URLs requested so far, oldest first.\<close>

fun requests :: "effect list \<Rightarrow> string list" where
  "requests [] = []"
| "requests (Request u # es) = u # requests es"
| "requests (_ # es) = requests es"

text \<open>The steps started so far, oldest first: the position printed (cursor plus one) and
  the name.\<close>

fun starts :: "effect list \<Rightarrow> (int \<times> string) list" where
  "starts [] = []"
| "starts (Starting i n nm # es) = (i, nm) # starts es"
| "starts (_ # es) = starts es"

text \<open>The waits performed so far, oldest first.\<close>

fun sleeps :: "effect list \<Rightarrow> real list" where
  "sleeps [] = []"
| "sleeps (Sleep d # es) = d # sleeps es"
| "sleeps (_ # es) = sleeps es"

subsection \<open>Python's list and string primitives\<close>

text \<open>\<^verbatim>\<open>xs[i]\<close>: a negative index counts from the end; outside the list it raises.\<close>

definition py_index :: "'a list \<Rightarrow> int \<Rightarrow> py_exception + 'a" where
  "py_index xs i =
     (if 0 \<le> i \<and> i < int (length xs) then Inr (xs ! nat i)
      else if i < 0 \<and> - int (length xs) \<le> i then Inr (xs ! nat (int (length xs) + i))
      else Inl IndexError)"

text \<open>\<^verbatim>\<open>xs.insert(i, x)\<close>: a negative index counts from the end, and an index
  outside the list is clipped to one of its ends.\<close>

definition py_insert :: "'a list \<Rightarrow> int \<Rightarrow> 'a \<Rightarrow> 'a list" where
  "py_insert xs i x =
     (let n = int (length xs);
          j = (if i < 0 then max 0 (n + i) else min i n)
      in take (nat j) xs @ x # drop (nat j) xs)"

text \<open>
  \<^verbatim>\<open>str.lower\<close> on code points below 256: the capital letters are \<^verbatim>\<open>A\<close> to
  \<^verbatim>\<open>Z\<close> and the code points 0xC0 to 0xDE without 0xD7 (the multiplication sign); each
  is mapped to the code point 0x20 above it, and no other code point changes.
\<close>

definition upper_chars :: "char list" where
  "upper_chars =
     ''ABCDEFGHIJKLMNOPQRSTUVWXYZ'' @
     [CHR 0xC0, CHR 0xC1, CHR 0xC2, CHR 0xC3, CHR 0xC4, CHR 0xC5, CHR 0xC6, CHR 0xC7,
      CHR 0xC8, CHR 0xC9, CHR 0xCA, CHR 0xCB, CHR 0xCC, CHR 0xCD, CHR 0xCE, CHR 0xCF,
      CHR 0xD0, CHR 0xD1, CHR 0xD2, CHR 0xD3, CHR 0xD4, CHR 0xD5, CHR 0xD6,
      CHR 0xD8, CHR 0xD9, CHR 0xDA, CHR 0xDB, CHR 0xDC, CHR 0xDD, CHR 0xDE]"

definition lower_chars :: "char list" where
  "lower_chars =
     ''abcdefghijklmnopqrstuvwxyz'' @
     [CHR 0xE0, CHR 0xE1, CHR 0xE2, CHR 0xE3, CHR 0xE4, CHR 0xE5, CHR 0xE6, CHR 0xE7,
      CHR 0xE8, CHR 0xE9, CHR 0xEA, CHR 0xEB, CHR 0xEC, CHR 0xED, CHR 0xEE, CHR 0xEF,
      CHR 0xF0, CHR 0xF1, CHR 0xF2, CHR 0xF3, CHR 0xF4, CHR 0xF5, CHR 0xF6,
      CHR 0xF8, CHR 0xF9, CHR 0xFA, CHR 0xFB, CHR 0xFC, CHR 0xFD, CHR 0xFE]"

definition lower_char :: "char \<Rightarrow> char" where
  "lower_char c =
     (case map_of (zip upper_chars lower_chars) c of
        Some d \<Rightarrow> d
      | None \<Rightarrow> c)"

definition lower :: "string \<Rightarrow> string" where
  "lower s = map lower_char s"

text \<open>
  \<^verbatim>\<open>str.strip\<close> without argument removes the white space at both ends. Below 256
  the white space characters of \<^verbatim>\<open>str.isspace\<close> are 0x09 to 0x0D, 0x1C to 0x1F, 0x20,
  0x85 and 0xA0.
\<close>

definition is_space :: "char \<Rightarrow> bool" where
  "is_space c \<longleftrightarrow>
     c \<in> set [CHR 0x20, CHR 0x09, CHR 0x0A, CHR 0x0B, CHR 0x0C, CHR 0x0D,
              CHR 0x1C, CHR 0x1D, CHR 0x1E, CHR 0x1F, CHR 0x85, CHR 0xA0]"

definition strip :: "string \<Rightarrow> string" where
  "strip s = rev (dropWhile is_space (rev (dropWhile is_space s)))"

text \<open>\<^verbatim>\<open>str(n)\<close> for an integer.\<close>

fun str_nat :: "nat \<Rightarrow> string" where
  "str_nat n =
     (if n < 10 then [''0123456789'' ! n]
      else str_nat (n div 10) @ [''0123456789'' ! (n mod 10)])"

definition str_int :: "int \<Rightarrow> string" where
  "str_int i = (if i < 0 then CHR ''-'' # str_nat (nat (- i)) else str_nat (nat i))"

subsection \<open>Poses and the command string\<close>

record RobotPose =
  base :: real
  shoulder :: real
  elbow :: real
  wrist :: real
  roll :: real
  hand :: real

text \<open>
  \<^verbatim>\<open>make_t102_command\<close> formats the six joint values with Python's float formatting,
  which is a parameter here (\<open>fstr\<close>). Its only caller, \<^verbatim>\<open>PoseState\<close>, leaves \<^verbatim>\<open>spd\<close> at its default 0
  and passes \<^verbatim>\<open>acc\<close>.
\<close>

definition make_t102_command :: "(real \<Rightarrow> string) \<Rightarrow> RobotPose \<Rightarrow> int \<Rightarrow> int \<Rightarrow> string" where
  "make_t102_command fstr pose spd acc =
     [CHR ''{'', CHR 0x22] @ ''T'' @ [CHR 0x22] @ '':102,''
     @ [CHR 0x22] @ ''base'' @ [CHR 0x22] @ '':'' @ fstr (base pose) @ '',''
     @ [CHR 0x22] @ ''shoulder'' @ [CHR 0x22] @ '':'' @ fstr (shoulder pose) @ '',''
     @ [CHR 0x22] @ ''elbow'' @ [CHR 0x22] @ '':'' @ fstr (elbow pose) @ '',''
     @ [CHR 0x22] @ ''wrist'' @ [CHR 0x22] @ '':'' @ fstr (wrist pose) @ '',''
     @ [CHR 0x22] @ ''roll'' @ [CHR 0x22] @ '':'' @ fstr (roll pose) @ '',''
     @ [CHR 0x22] @ ''hand'' @ [CHR 0x22] @ '':'' @ fstr (hand pose) @ '',''
     @ [CHR 0x22] @ ''spd'' @ [CHR 0x22] @ '':'' @ str_int spd @ '',''
     @ [CHR 0x22] @ ''acc'' @ [CHR 0x22] @ '':'' @ str_int acc @ ''}''"

subsection \<open>The dispatcher: \<^verbatim>\<open>RobotState._send_command\<close>\<close>

definition command_url :: "string \<Rightarrow> string \<Rightarrow> string" where
  "command_url ip command_str = ''http://'' @ ip @ ''/js?json='' @ command_str"

text \<open>
  \<^verbatim>\<open>time.sleep(secs)\<close>, called with a positive number only. CPython counts the delay in
  nanoseconds in a signed 64-bit integer and raises \<^verbatim>\<open>OverflowError\<close>, before it waits
  at all, for a delay that does not fit (the two sides of the bound are subject to the
  rounding of the float). Below that bound the platform may still refuse the wait
  (\<^verbatim>\<open>OSError\<close>), and Ctrl+C may cut it: the fate of the call says so. A wait that goes
  through is logged. The floats that are no real numbers are not modelled: the positive
  infinity is refused like every delay beyond the bound, and NaN and the negative infinity
  are not greater than 0, so that no wait is attempted for them.
\<close>

definition sleep_overflows :: "real \<Rightarrow> bool" where
  "sleep_overflows secs \<longleftrightarrow> 2 ^ 63 \<le> secs * 10 ^ 9"

definition time_sleep :: "real \<Rightarrow> net_event \<Rightarrow> world \<Rightarrow> (py_exception + unit) \<times> world" where
  "time_sleep secs fate w =
     (if sleep_overflows secs then (Inl OverflowError, w)
      else case fate of
             SleepException _ \<Rightarrow> (Inl OSError, w)
           | SleepCtrlC _ \<Rightarrow> (Inl KeyboardInterrupt, w)
           | _ \<Rightarrow> (Inr (), emit (Sleep secs) w))"

text \<open>
  The body of the \<^verbatim>\<open>try\<close> statement after the response has arrived: the wait, if the
  delay is positive, and \<^verbatim>\<open>return StateResult.SUCCESS\<close>. An exception of the wait is
  caught by \<^verbatim>\<open>except Exception\<close> and gives \<open>FAILURE\<close>, but a \<^verbatim>\<open>KeyboardInterrupt\<close>
  is no \<^verbatim>\<open>Exception\<close> and leaves the function.
\<close>

definition after_response ::
    "real \<Rightarrow> net_event \<Rightarrow> world \<Rightarrow> (py_exception + StateResult) \<times> world" where
  "after_response delay fate w =
     (if delay > 0 then
        (case time_sleep delay fate w of
           (Inr u, w') \<Rightarrow> (Inr SUCCESS, w')
         | (Inl e, w') \<Rightarrow>
             if e = KeyboardInterrupt then (Inl KeyboardInterrupt, w') else (Inr FAILURE, w'))
      else (Inr SUCCESS, w))"

text \<open>
  The request is logged and counted, then the branch of the \<^verbatim>\<open>try\<close> statement that
  the fate of the call selects runs.
\<close>

definition send_command ::
    "string \<Rightarrow> string \<Rightarrow> real \<Rightarrow> world \<Rightarrow> (py_exception + StateResult) \<times> world" where
  "send_command ip command_str delay w =
     (let w1 = emit (Request (command_url ip command_str)) (w\<lparr>sent := Suc (sent w)\<rparr>)
      in case net w (sent w) of
           Response body \<Rightarrow> after_response delay (Response body) w1
         | SleepException body \<Rightarrow> after_response delay (SleepException body) w1
         | SleepCtrlC body \<Rightarrow> after_response delay (SleepCtrlC body) w1
         | Timeout \<Rightarrow> (Inr SUCCESS, w1)
         | RequestException \<Rightarrow> (Inr FAILURE, w1)
         | OtherException \<Rightarrow> (Inr FAILURE, w1)
         | NetCtrlC \<Rightarrow> (Inl KeyboardInterrupt, w1))"

subsection \<open>The states\<close>

datatype RobotState =
    SimpleRobotState string "(string \<times> real) list"
  | DropoffSelectionState string "(string \<times> string) list"
  | WaitForInputState string

fun name :: "RobotState \<Rightarrow> string" where
  "name (SimpleRobotState n _) = n"
| "name (DropoffSelectionState n _) = n"
| "name (WaitForInputState n) = n"

text \<open>\<^verbatim>\<open>PoseState\<close> is a \<^verbatim>\<open>SimpleRobotState\<close> whose commands are built from poses.\<close>

definition PoseState ::
    "(real \<Rightarrow> string) \<Rightarrow> string \<Rightarrow> (RobotPose \<times> real) list \<Rightarrow> int \<Rightarrow> RobotState" where
  "PoseState fstr n poses acc =
     SimpleRobotState n (map (\<lambda>(pose, delay). (make_t102_command fstr pose 0 acc, delay)) poses)"

text \<open>The loop of \<^verbatim>\<open>SimpleRobotState.execute\<close> over the commands still to send.\<close>

fun send_all ::
    "string \<Rightarrow> (string \<times> real) list \<Rightarrow> world \<Rightarrow> (py_exception + StateResult) \<times> world" where
  "send_all ip [] w = (Inr SUCCESS, w)"
| "send_all ip ((command, delay) # rest) w =
     (let (result, w') = send_command ip command delay w
      in if result \<noteq> Inr SUCCESS then (result, w') else send_all ip rest w')"

text \<open>
  \<^verbatim>\<open>execute\<close> of the three classes. Both interactive states catch
  \<^verbatim>\<open>KeyboardInterrupt\<close> and \<^verbatim>\<open>EOFError\<close>, the only exceptions \<open>input\<close> raises.
\<close>

fun execute :: "RobotState \<Rightarrow> string \<Rightarrow> world \<Rightarrow> (py_exception + py_value) \<times> world" where
  "execute (SimpleRobotState n commands) ip w =
     (let (result, w') = send_all ip commands w
      in (case result of Inl e \<Rightarrow> Inl e | Inr r \<Rightarrow> Inr (Enum r), w'))"
| "execute (DropoffSelectionState n dropoff_map) ip w =
     (case input w of
        (Inl e, w') \<Rightarrow> (Inr (Enum ABORT), w')
      | (Inr line, w') \<Rightarrow>
          (let user_input = strip (lower line)
           in if user_input = ''s'' then (Inr (Enum SUCCESS), w')
              else if user_input = ''a'' then (Inr (Enum ABORT), w')
              else if user_input \<in> fst ` set dropoff_map then (Inr (Str user_input), w')
              else (Inr (Enum FAILURE), w')))"
| "execute (WaitForInputState n) ip w =
     (case input w of
        (Inl e, w') \<Rightarrow> (Inr (Enum ABORT), w')
      | (Inr line, w') \<Rightarrow>
          (let user_input = strip (lower line)
           in if user_input = ''s'' then (Inr (Enum SUCCESS), w')
              else if user_input = ''r'' then (Inr (Str ''REPEAT''), w')
              else (Inr (Enum SUCCESS), w')))"

subsection \<open>The pose tables and the registry\<close>

text \<open>The positional constructor of the dataclass \<^verbatim>\<open>RobotPose\<close>.\<close>

definition pose :: "real \<Rightarrow> real \<Rightarrow> real \<Rightarrow> real \<Rightarrow> real \<Rightarrow> real \<Rightarrow> RobotPose" where
  "pose b s e w r h = \<lparr>base = b, shoulder = s, elbow = e, wrist = w, roll = r, hand = h\<rparr>"

definition HOME_POSE :: RobotPose where
  "HOME_POSE = pose (1.553922538) (- 0.113514578) (2.406815856) (0.905048665) (- 0.076699039) (2.664524629)"

definition LEFT_PICKUP_POSES :: "(RobotPose \<times> real) list" where
  "LEFT_PICKUP_POSES =
     [(pose (1.553922538) (- 0.113514578) (2.406815856) (0.905048665) (- 0.076699039) (2.664524629), 0.42),
      (pose (1.279339977) (0.230097118) (2.58935957) (0.527689391) (- 0.216291563) (2.553320765), 0.3),
      (pose (1.290077843) (0.176407791) (2.658388705) (0.40803889) (- 0.260776734) (3.183301384), 0.15),
      (pose (1.412971055) (- 0.159534002) (2.370000317) (1.015495282) (- 0.234699332) (3.126252846), 0.14)]"

definition MIDDLE_DROPOFF_POSES :: "(RobotPose \<times> real) list" where
  "MIDDLE_DROPOFF_POSES =
     [(pose (0.401902966) (0.110446617) (2.311709047) (0.852893318) (- 1.202640938) (3.046485845), 0.55),
      (pose (0.348213639) (0.059825251) (2.126097372) (1.113670052) (- 1.225650921) (2.536621726), 0.14)]"

definition FRONT_DROPOFF_POSES :: "(RobotPose \<times> real) list" where
  "FRONT_DROPOFF_POSES =
     [(pose (0.584776797) (0.335941793) (1.960427447) (1.11060209) (- 0.741864204) (3.051087787), 0.62),
      (pose (0.584776797) (0.335941793) (1.960427447) (1.11060209) (- 0.741864204) (2.551087787), 0.17),
      (pose (0.635689412) (0.141126232) (2.034058525) (1.086058398) (- 0.889708857) (2.758097457), 0.27)]"

definition BACK_DROPOFF_POSES :: "(RobotPose \<times> real) list" where
  "BACK_DROPOFF_POSES =
     [(pose (- 0.09817477) (0.018407769) (2.205922623) (1.063048686) (- 1.659767484) (3.224835364), 0.95),
      (pose (- 0.09817477) (0.018407769) (2.205922623) (1.063048686) (- 1.659767484) (2.536621726), 0.175)]"

definition PUSH_OFF_POSES :: "(RobotPose \<times> real) list" where
  "PUSH_OFF_POSES =
     [(pose (0.931126338) (0.352815581) (1.684310905) (0.975029284) (- 0.878971263) (2.721650903), 0.125),
      (pose (0.920388473) (0.415708794) (1.998776967) (0.65761176) (- 0.878971263) (3.121650903), 0.23),
      (pose (- 0.403436947) (0.181009733) (2.462039165) (0.559902988) (- 1.67165101) (3.118582942), 0.5)]"

definition PUSH_ON_HALF_POSES :: "(RobotPose \<times> real) list" where
  "PUSH_ON_HALF_POSES =
     [(pose (- 0.242368964) (- 0.073631078) (2.02485464) (1.283941919) (- 0.302194215) (3.118582942), 0.01),
      (pose (0.862097203) (0.162601964) (1.681242944) (1.374446786) (0.776194279) (3.113980999), 0.28)]"

definition PUSH_ON_FULL_POSES :: "(RobotPose \<times> real) list" where
  "PUSH_ON_FULL_POSES =
     [(pose (1.141281706) (0.794602048) (0.682621451) (1.529378846) (1.038504993) (3.106311095), 1.6),
      (pose (1.224116669) (0.849825356) (0.957204012) (1.222582688) (1.199572976) (3.092505268), 0.7),
      (pose (1.113670052) (0.656543777) (1.435806017) (1.135145783) (1.12900986) (3.112447019), 0.2),
      (pose (0.882038953) (0.460194236) (1.94662162) (0.960271973) (0.983281685) (3.121650903), 0.2),
      (pose (0.883572934) (0.274582561) (1.702718675) (1.288543862) (0.912718569) (3.113980999), 0.35)]"

definition BACK_PUSH_POSES :: "(RobotPose \<times> real) list" where
  "BACK_PUSH_POSES =
     [(pose (1.141281706) (0.794602048) (0.682621451) (1.529378846) (1.038504993) (3.106311095), 0.52),
      (pose (1.224116669) (0.849825356) (0.957204012) (1.222582688) (1.199572976) (3.092505268), 0.15),
      (pose (1.113670052) (0.656543777) (1.435806017) (1.135145783) (1.12900986) (3.112447019), 0.135),
      (pose (0.882038953) (0.460194236) (1.94662162) (0.960271973) (0.983281685) (3.121650903), 0.1),
      (pose (0.883572934) (0.274582561) (1.702718675) (1.288543862) (0.912718569) (3.113980999), 0.25)]"

definition FAR_MIDDLE_POSES :: "(RobotPose \<times> real) list" where
  "FAR_MIDDLE_POSES =
     [(pose (1.093728302) (0.608990373) (1.049242859) (1.500233211) (- 0.549165122) (3.117048961), 2.5),
      (pose (1.093728302) (0.608990373) (1.049242859) (1.500233211) (- 0.549165122) (2.517048961), 0.5)]"

text \<open>
  The registry maps a symbolic name to a factory without arguments. The dictionary
  literal of \<^verbatim>\<open>create_state_registry\<close> has twelve distinct keys.
\<close>

type_synonym registry = "string \<rightharpoonup> (unit \<Rightarrow> RobotState)"

definition select_dropoff_map :: "(string \<times> string) list" where
  "select_dropoff_map =
     [(''1'', ''Middle Dropoff''),
      (''2'', ''Front Dropoff''),
      (''3'', ''Back Dropoff''),
      (''4'', ''Far Middle Dropoff'')]"

definition create_state_registry :: "(real \<Rightarrow> string) \<Rightarrow> registry" where
  "create_state_registry fstr =
     map_of
       [(''Home'', \<lambda>_. PoseState fstr ''Home'' [(HOME_POSE, 0.1)] 255),
        (''LeftPickup'', \<lambda>_. PoseState fstr ''Left Pickup'' LEFT_PICKUP_POSES 255),
        (''MiddleDropoff'', \<lambda>_. PoseState fstr ''Middle Dropoff'' MIDDLE_DROPOFF_POSES 255),
        (''FrontDropoff'', \<lambda>_. PoseState fstr ''Front Dropoff'' FRONT_DROPOFF_POSES 255),
        (''BackDropoff'', \<lambda>_. PoseState fstr ''Back Dropoff'' BACK_DROPOFF_POSES 255),
        (''PushOff'', \<lambda>_. PoseState fstr ''Push Off'' PUSH_OFF_POSES 255),
        (''PushOnHalf'', \<lambda>_. PoseState fstr ''Push On'' PUSH_ON_HALF_POSES 255),
        (''PushOnFull'', \<lambda>_. PoseState fstr ''Push On'' PUSH_ON_FULL_POSES 255),
        (''BackPush'', \<lambda>_. PoseState fstr ''Back Push'' BACK_PUSH_POSES 255),
        (''FarMiddle'', \<lambda>_. PoseState fstr ''Far Middle Dropoff'' FAR_MIDDLE_POSES 255),
        (''Wait'', \<lambda>_. WaitForInputState ''Wait For Input''),
        (''SelectDropoff'', \<lambda>_. DropoffSelectionState ''Select Dropoff'' select_dropoff_map)]"

subsection \<open>The runner: \<^verbatim>\<open>StateMachine\<close>\<close>

record StateMachine =
  ip_addr :: string
  states :: "RobotState list"
  state_registry :: registry

text \<open>\<^verbatim>\<open>StateMachine(ip_addr, state_registry)\<close> starts with no states.\<close>

definition new_machine :: "string \<Rightarrow> registry \<Rightarrow> StateMachine" where
  "new_machine ip reg = \<lparr>ip_addr = ip, states = [], state_registry = reg\<rparr>"

fun add_states_from_sequence ::
    "StateMachine \<Rightarrow> string list \<Rightarrow> world \<Rightarrow> StateMachine \<times> world" where
  "add_states_from_sequence m [] w = (m, w)"
| "add_states_from_sequence m (state_name # rest) w =
     (case state_registry m state_name of
        Some factory \<Rightarrow>
          add_states_from_sequence (m\<lparr>states := states m @ [factory ()]\<rparr>) rest w
      | None \<Rightarrow> add_states_from_sequence m rest (emit (Warning state_name) w))"

text \<open>The dictionary local to \<^verbatim>\<open>run\<close>, from selection keys to registry names.\<close>

definition dropoff_mapping :: "string \<rightharpoonup> string" where
  "dropoff_mapping =
     map_of
       [(''1'', ''MiddleDropoff''),
        (''2'', ''FrontDropoff''),
        (''3'', ''BackDropoff''),
        (''4'', ''FarMiddle'')]"

text \<open>\<^verbatim>\<open>dropoff_mapping.get(result)\<close>: a member of the enum is not a key.\<close>

fun mapped_name :: "py_value \<Rightarrow> string option" where
  "mapped_name (Str k) = dropoff_mapping k"
| "mapped_name (Enum _) = None"

text \<open>
  How \<^verbatim>\<open>run\<close> ends: with one of its three messages, with the message of the
  \<^verbatim>\<open>except KeyboardInterrupt\<close> clause, or with an exception that no clause catches.
\<close>

datatype run_end = Completed | Failed | Aborted | Terminated | Uncaught py_exception

fun raised :: "py_exception \<Rightarrow> run_end" where
  "raised KeyboardInterrupt = Terminated"
| "raised e = Uncaught e"

datatype loop_step =
    Continue int "RobotState list" world
  | Halt run_end "RobotState list" world

text \<open>
  The \<^verbatim>\<open>if\<close>/\<^verbatim>\<open>elif\<close> chain of the loop on the value that \<^verbatim>\<open>execute\<close> returned,
  in the order of the source.
\<close>

definition transition ::
    "registry \<Rightarrow> int \<Rightarrow> RobotState list \<Rightarrow> py_value \<Rightarrow> world \<Rightarrow> loop_step" where
  "transition reg i sts result w =
     (if result = Enum SUCCESS then Continue (i + 1) sts w
      else if result = Str ''REPEAT'' then Continue (i - 2) sts w
      else case mapped_name result of
             Some dropoff_state_name \<Rightarrow>
               (case reg dropoff_state_name of
                  None \<Rightarrow> Halt (Uncaught KeyError) sts w
                | Some factory \<Rightarrow> Continue (i + 1) (py_insert sts (i + 1) (factory ())) w)
           | None \<Rightarrow>
               if result = Enum ABORT then Halt Aborted sts w else Halt Failed sts w)"

text \<open>The part of the loop body that follows \<^verbatim>\<open>state = self.states[i]\<close>.\<close>

definition run_state ::
    "registry \<Rightarrow> string \<Rightarrow> int \<Rightarrow> RobotState list \<Rightarrow> RobotState \<Rightarrow> world \<Rightarrow> loop_step" where
  "run_state reg ip i sts state w =
     (case execute state ip (emit (Starting (i + 1) (length sts) (name state)) w) of
        (Inl e, w') \<Rightarrow> Halt (raised e) sts w'
      | (Inr result, w') \<Rightarrow> transition reg i sts result w')"

definition loop_body ::
    "registry \<Rightarrow> string \<Rightarrow> int \<Rightarrow> RobotState list \<Rightarrow> world \<Rightarrow> loop_step" where
  "loop_body reg ip i sts w =
     (case py_index sts i of
        Inl e \<Rightarrow> Halt (raised e) sts w
      | Inr state \<Rightarrow> run_state reg ip i sts state w)"


text \<open>
  The \<^verbatim>\<open>while\<close> loop of \<^verbatim>\<open>run\<close>. It returns how the run ended, the list of
  states as the injections left it, and the world.
\<close>

function run_loop ::
    "registry \<Rightarrow> string \<Rightarrow> int \<Rightarrow> RobotState list \<Rightarrow> world
       \<Rightarrow> run_end \<times> RobotState list \<times> world" where
  "run_loop reg ip i sts w =
     (if i < int (length sts) then
        (case loop_body reg ip i sts w of
           Continue i' sts' w' \<Rightarrow> run_loop reg ip i' sts' w'
         | Halt e sts' w' \<Rightarrow> (e, sts', w'))
      else (Completed, sts, w))"
  by pat_completeness auto

text \<open>\<^verbatim>\<open>run\<close>: the loop from cursor 0; the \<^verbatim>\<open>finally\<close> clause closes the
  session however the loop ended.\<close>

definition run :: "StateMachine \<Rightarrow> world \<Rightarrow> run_end \<times> StateMachine \<times> world" where
  "run m w =
     (let (e, sts, w') = run_loop (state_registry m) (ip_addr m) 0 (states m) w
      in (e, m\<lparr>states := sts\<rparr>, emit SessionClosed w'))"

text \<open>
  The states of the loop (cursor, list of states, world) that a run visits at the head
  of the \<^verbatim>\<open>while\<close> statement, starting from a given one.
\<close>

inductive visits ::
    "registry \<Rightarrow> string \<Rightarrow> int \<times> RobotState list \<times> world
       \<Rightarrow> int \<times> RobotState list \<times> world \<Rightarrow> bool"
  for reg :: registry and ip :: string and s :: "int \<times> RobotState list \<times> world" where
  visits_start: "visits reg ip s s"
| visits_step:
    "visits reg ip s (i, sts, w) \<Longrightarrow> i < int (length sts) \<Longrightarrow>
     loop_body reg ip i sts w = Continue i' sts' w' \<Longrightarrow>
     visits reg ip s (i', sts', w')"

code_pred visits .

subsection \<open>Auxiliary notions for the properties\<close>

text \<open>
  The result that \<^verbatim>\<open>_send_command\<close> returns for the call number \<open>k\<close> of a
  world when it is given the delay \<open>d\<close>. It depends on the fate of that call and on the
  delay, not on the address or the command (lemma \<open>send_command_fst\<close> below).
\<close>

definition dispatch_result :: "world \<Rightarrow> nat \<Rightarrow> real \<Rightarrow> py_exception + StateResult" where
  "dispatch_result w k d = fst (send_command [] [] d (w\<lparr>sent := k\<rparr>))"

text \<open>A world at the start of a program: nothing sent, nothing logged.\<close>

definition quiet_world :: "key_event list \<Rightarrow> (nat \<Rightarrow> net_event) \<Rightarrow> world" where
  "quiet_world keys fate = \<lparr>stdin = keys, net = fate, sent = 0, log = []\<rparr>"

section \<open>The loop terminates\<close>

text \<open>
  No state gives input back, and a state that returns a string has consumed a line.
  So every iteration either consumes operator input or moves the cursor one step
  towards the end of an unchanged list.
\<close>

lemma stdin_emit [simp]: "stdin (emit e w) = stdin w"
  by (simp add: emit_def)

lemma stdin_after_response [simp]: "stdin (snd (after_response d fate w)) = stdin w"
  by (simp add: after_response_def time_sleep_def split: net_event.splits)

lemma stdin_send_command [simp]: "stdin (snd (send_command ip c d w)) = stdin w"
  by (simp add: send_command_def Let_def split: net_event.splits)

lemma stdin_send_all [simp]: "stdin (snd (send_all ip cs w)) = stdin w"
proof (induction cs arbitrary: w)
  case Nil
  show ?case by simp
next
  case (Cons c cs)
  obtain command delay where c: "c = (command, delay)"
    by (cases c)
  obtain r w' where sc: "send_command ip command delay w = (r, w')"
    by (cases "send_command ip command delay w")
  have "stdin w' = stdin w"
    using stdin_send_command [of ip command delay w] sc by simp
  then show ?case
    using Cons.IH [of w'] c sc by simp
qed

lemma input_cases:
  "input w = (r, w') \<Longrightarrow>
     (stdin w = [] \<and> w' = w \<and> r = Inl EOFError) \<or> length (stdin w') < length (stdin w)"
  by (auto simp: input_def split: list.splits key_event.splits)

lemma execute_stdin_le: "length (stdin (snd (execute st ip w))) \<le> length (stdin w)"
proof (cases st)
  case (SimpleRobotState n cs)
  then show ?thesis
    by (simp add: split_beta)
next
  case (DropoffSelectionState n m)
  obtain r w' where i: "input w = (r, w')"
    by (cases "input w")
  from input_cases [OF i] DropoffSelectionState i show ?thesis
    by (auto simp: Let_def split: sum.splits)
next
  case (WaitForInputState n)
  obtain r w' where i: "input w = (r, w')"
    by (cases "input w")
  from input_cases [OF i] WaitForInputState i show ?thesis
    by (auto simp: Let_def split: sum.splits)
qed

lemma execute_Str_stdin:
  assumes "execute st ip w = (Inr (Str s), w')"
  shows "length (stdin w') < length (stdin w)"
proof (cases st)
  case (SimpleRobotState n cs)
  with assms show ?thesis
    by (auto simp: split_beta split: sum.splits)
next
  case (DropoffSelectionState n m)
  obtain r w1 where i: "input w = (r, w1)"
    by (cases "input w")
  from input_cases [OF i] DropoffSelectionState i assms show ?thesis
    by (auto simp: Let_def split: sum.splits if_splits)
next
  case (WaitForInputState n)
  obtain r w1 where i: "input w = (r, w1)"
    by (cases "input w")
  from input_cases [OF i] WaitForInputState i assms show ?thesis
    by (auto simp: Let_def split: sum.splits if_splits)
qed

lemma transition_Continue:
  "transition reg i sts result w = Continue i' sts' w' \<Longrightarrow>
     w' = w \<and> ((result = Enum SUCCESS \<and> i' = i + 1 \<and> sts' = sts) \<or> (\<exists>s. result = Str s))"
  by (cases result) (auto simp: transition_def split: if_splits option.splits)

lemma loop_body_Continue:
  assumes "loop_body reg ip i sts w = Continue i' sts' w'"
  shows "length (stdin w') < length (stdin w) \<or>
         (length (stdin w') = length (stdin w) \<and> i' = i + 1 \<and> sts' = sts)"
proof -
  from assms obtain state where st: "py_index sts i = Inr state"
    and rs: "run_state reg ip i sts state w = Continue i' sts' w'"
    by (auto simp: loop_body_def split: sum.splits)
  let ?w0 = "emit (Starting (i + 1) (length sts) (name state)) w"
  obtain r w1 where ex: "execute state ip ?w0 = (r, w1)"
    by (cases "execute state ip ?w0")
  from rs ex obtain result where r: "r = Inr result"
    and tr: "transition reg i sts result w1 = Continue i' sts' w'"
    by (auto simp: run_state_def split: sum.splits)
  from transition_Continue [OF tr] have w': "w' = w1"
    and alt: "(result = Enum SUCCESS \<and> i' = i + 1 \<and> sts' = sts) \<or> (\<exists>s. result = Str s)"
    by auto
  have le: "length (stdin w1) \<le> length (stdin w)"
    using execute_stdin_le [of state ip ?w0] ex by simp
  from alt show ?thesis
  proof
    assume "result = Enum SUCCESS \<and> i' = i + 1 \<and> sts' = sts"
    with le w' show ?thesis
      by auto
  next
    assume "\<exists>s. result = Str s"
    then obtain s where "result = Str s" ..
    with ex r have "length (stdin w1) < length (stdin ?w0)"
      using execute_Str_stdin by blast
    with w' show ?thesis
      by simp
  qed
qed

termination run_loop
proof (relation "measures [\<lambda>(reg, ip, i, sts, w). length (stdin w),
                           \<lambda>(reg, ip, i, sts, w). nat (int (length sts) - i)]")
  show "wf (measures [\<lambda>(reg, ip, i, sts, w). length (stdin w),
                      \<lambda>(reg, ip, i, sts, w). nat (int (length sts) - i)])"
    by simp
next
  fix reg :: registry and ip i sts w i' sts' w'
  assume "i < int (length sts)" and "loop_body reg ip i sts w = Continue i' sts' w'"
  then show "((reg, ip, i', sts', w'), (reg, ip, i, sts, w))
       \<in> measures [\<lambda>(reg, ip, i, sts, w). length (stdin w),
                   \<lambda>(reg, ip, i, sts, w). nat (int (length sts) - i)]"
    using loop_body_Continue [of reg ip i sts w i' sts' w'] by auto
qed

declare run_loop.simps [simp del]


section \<open>The dispatcher\<close>

lemma requests_append [simp]: "requests (es @ fs) = requests es @ requests fs"
  by (induction es rule: requests.induct) simp_all

lemma sleeps_append [simp]: "sleeps (es @ fs) = sleeps es @ sleeps fs"
  by (induction es rule: sleeps.induct) simp_all

lemma after_response_world:
  "requests (log (snd (after_response d fate w))) = requests (log w) \<and>
   sent (snd (after_response d fate w)) = sent w \<and>
   net (snd (after_response d fate w)) = net w"
  by (simp add: after_response_def time_sleep_def emit_def split: net_event.splits)

lemma after_response_fst:
  "fst (after_response d fate w) = fst (after_response d fate w')"
  by (simp add: after_response_def time_sleep_def split: net_event.splits)

lemma send_command_fst: "fst (send_command ip c d w) = dispatch_result w (sent w) d"
  using after_response_fst
  by (auto simp: dispatch_result_def send_command_def Let_def split: net_event.splits)

lemma send_command_world:
  "requests (log (snd (send_command ip c d w))) = requests (log w) @ [command_url ip c] \<and>
   sent (snd (send_command ip c d w)) = Suc (sent w) \<and>
   net (snd (send_command ip c d w)) = net w"
  by (simp add: send_command_def Let_def after_response_world split: net_event.splits)
    (simp add: emit_def)

lemma dispatch_result_cong:
  "net w' = net w \<Longrightarrow> dispatch_result w' k d = dispatch_result w k d"
  using after_response_fst
  by (auto simp: dispatch_result_def send_command_def Let_def split: net_event.splits)

text \<open>
  Claim C5, as stated, fails: a request that completes with a response need not give
  \<open>SUCCESS\<close>. With a delay of ten thousand million seconds \<^verbatim>\<open>time.sleep\<close> raises
  \<^verbatim>\<open>OverflowError\<close> inside the \<^verbatim>\<open>try\<close> statement, and \<^verbatim>\<open>except Exception\<close> makes
  that \<open>FAILURE\<close>.
\<close>

theorem send_command_response_overlong_wait:
  "fst (send_command ''192.168.4.1'' ''cmd'' 10000000000 (quiet_world [] (\<lambda>_. Response ''ok''))) =
     Inr FAILURE"
  by (simp add: send_command_def quiet_world_def emit_def after_response_def time_sleep_def
      sleep_overflows_def)

text \<open>
  Claim C5, amended. A request answered by any response gives \<open>SUCCESS\<close> when no wait is
  due (the delay is not positive) or the wait goes through, and \<open>FAILURE\<close> when the wait
  raises: for a delay that \<^verbatim>\<open>time.sleep\<close> cannot count, or when the platform refuses
  the wait. A request that runs into the request timeout gives \<open>SUCCESS\<close>, so that a caller
  cannot tell it from an answered one; any other fault of the transport (a
  \<^verbatim>\<open>RequestException\<close> that is no timeout, or any other \<^verbatim>\<open>Exception\<close>) gives
  \<open>FAILURE\<close>.
\<close>

theorem send_command_classification:
  "(net w (sent w) = Response body \<and> \<not> (0 < d \<and> sleep_overflows d) \<longrightarrow>
      fst (send_command ip c d w) = Inr SUCCESS) \<and>
   (net w (sent w) = Response body \<and> 0 < d \<and> sleep_overflows d \<longrightarrow>
      fst (send_command ip c d w) = Inr FAILURE) \<and>
   (net w (sent w) = SleepException body \<longrightarrow>
      fst (send_command ip c d w) = (if 0 < d then Inr FAILURE else Inr SUCCESS)) \<and>
   (net w (sent w) = Timeout \<longrightarrow> fst (send_command ip c d w) = Inr SUCCESS) \<and>
   (net w (sent w) = RequestException \<or> net w (sent w) = OtherException \<longrightarrow>
      fst (send_command ip c d w) = Inr FAILURE)"
  by (auto simp: send_command_def Let_def after_response_def time_sleep_def)

theorem send_command_classification_witness:
  "fst (send_command ''192.168.4.1'' ''cmd'' 0.5 (quiet_world [] (\<lambda>_. Response ''ok''))) = Inr SUCCESS \<and>
   fst (send_command ''192.168.4.1'' ''cmd'' 0 (quiet_world [] (\<lambda>_. Response ''ok''))) = Inr SUCCESS \<and>
   fst (send_command ''192.168.4.1'' ''cmd'' 10000000000 (quiet_world [] (\<lambda>_. Response ''ok''))) =
     Inr FAILURE \<and>
   fst (send_command ''192.168.4.1'' ''cmd'' 0.5 (quiet_world [] (\<lambda>_. SleepException ''ok''))) =
     Inr FAILURE \<and>
   fst (send_command ''192.168.4.1'' ''cmd'' 0.5 (quiet_world [] (\<lambda>_. Timeout))) = Inr SUCCESS \<and>
   fst (send_command ''192.168.4.1'' ''cmd'' 0.5 (quiet_world [] (\<lambda>_. RequestException))) = Inr FAILURE \<and>
   fst (send_command ''192.168.4.1'' ''cmd'' 0.5 (quiet_world [] (\<lambda>_. OtherException))) = Inr FAILURE"
  using send_command_classification [where w = "quiet_world [] (\<lambda>_. Response ''ok'')"
          and body = "''ok''" and ip = "''192.168.4.1''" and c = "''cmd''" and d = "0.5"]
        send_command_classification [where w = "quiet_world [] (\<lambda>_. Response ''ok'')"
          and body = "''ok''" and ip = "''192.168.4.1''" and c = "''cmd''" and d = "0"]
        send_command_classification [where w = "quiet_world [] (\<lambda>_. Response ''ok'')"
          and body = "''ok''" and ip = "''192.168.4.1''" and c = "''cmd''" and d = "10000000000"]
        send_command_classification [where w = "quiet_world [] (\<lambda>_. SleepException ''ok'')"
          and body = "''ok''" and ip = "''192.168.4.1''" and c = "''cmd''" and d = "0.5"]
        send_command_classification [where w = "quiet_world [] (\<lambda>_. Timeout)"
          and body = "''ok''" and ip = "''192.168.4.1''" and c = "''cmd''" and d = "0.5"]
        send_command_classification [where w = "quiet_world [] (\<lambda>_. RequestException)"
          and body = "''ok''" and ip = "''192.168.4.1''" and c = "''cmd''" and d = "0.5"]
        send_command_classification [where w = "quiet_world [] (\<lambda>_. OtherException)"
          and body = "''ok''" and ip = "''192.168.4.1''" and c = "''cmd''" and d = "0.5"]
  by (simp add: quiet_world_def sleep_overflows_def)

text \<open>
  Claim C6 does not hold of the code. With a delay of half a second and a request that
  times out, \<^verbatim>\<open>_send_command\<close> returns \<open>SUCCESS\<close> and has not waited: the
  \<^verbatim>\<open>except requests.exceptions.Timeout\<close> clause returns at once, and \<^verbatim>\<open>time.sleep\<close> is
  reached only after a response. The docstring of the function reads ``send a command and
  wait'', and its message on a timeout that the command may have been sent.
\<close>

theorem send_command_timeout_skips_wait:
  "fst (send_command ''192.168.4.1'' ''cmd'' 0.5 (quiet_world [] (\<lambda>_. Timeout))) = Inr SUCCESS \<and>
   (0::real) < 0.5 \<and>
   sleeps (log (snd (send_command ''192.168.4.1'' ''cmd'' 0.5 (quiet_world [] (\<lambda>_. Timeout))))) = []"
  by (simp add: send_command_def quiet_world_def emit_def)

text \<open>
  Where the wait does happen: after a response, for a positive delay that
  \<^verbatim>\<open>time.sleep\<close> can count, the function waits for exactly that delay, once, and
  returns \<open>SUCCESS\<close>; for a delay that is not positive it returns \<open>SUCCESS\<close> without
  waiting.
\<close>

lemma send_command_wait:
  "(net w (sent w) = Response body \<and> 0 < d \<and> \<not> sleep_overflows d \<longrightarrow>
      fst (send_command ip c d w) = Inr SUCCESS \<and>
      sleeps (log (snd (send_command ip c d w))) = sleeps (log w) @ [d]) \<and>
   (net w (sent w) = Response body \<and> \<not> 0 < d \<longrightarrow>
      fst (send_command ip c d w) = Inr SUCCESS \<and>
      sleeps (log (snd (send_command ip c d w))) = sleeps (log w))"
  by (auto simp: send_command_def Let_def emit_def after_response_def time_sleep_def)

section \<open>The states\<close>

subsection \<open>\<^verbatim>\<open>SimpleRobotState\<close>\<close>

lemma send_all_success:
  "(\<forall>k<length cs. dispatch_result w (sent w + k) (snd (cs ! k)) = Inr SUCCESS) \<Longrightarrow>
     fst (send_all ip cs w) = Inr SUCCESS \<and>
     requests (log (snd (send_all ip cs w))) =
       requests (log w) @ map (\<lambda>(c, d). command_url ip c) cs"
proof (induction cs arbitrary: w)
  case Nil
  show ?case
    by simp
next
  case (Cons x cs)
  obtain c d where x: "x = (c, d)"
    by (cases x)
  obtain r w' where sc: "send_command ip c d w = (r, w')"
    by (cases "send_command ip c d w")
  from Cons.prems have "dispatch_result w (sent w + 0) (snd ((x # cs) ! 0)) = Inr SUCCESS"
    by blast
  with sc x have r: "r = Inr SUCCESS"
    using send_command_fst [of ip c d w] by simp
  from sc have w': "requests (log w') = requests (log w) @ [command_url ip c]"
    "sent w' = Suc (sent w)" "net w' = net w"
    using send_command_world [of ip c d w] by simp_all
  have "\<forall>k<length cs. dispatch_result w' (sent w' + k) (snd (cs ! k)) = Inr SUCCESS"
  proof (intro allI impI)
    fix k
    assume "k < length cs"
    then have "dispatch_result w (sent w + Suc k) (snd ((x # cs) ! Suc k)) = Inr SUCCESS"
      using Cons.prems by auto
    then show "dispatch_result w' (sent w' + k) (snd (cs ! k)) = Inr SUCCESS"
      using w' dispatch_result_cong [of w' w] by simp
  qed
  from Cons.IH [OF this] show ?case
    using x sc r w' by simp
qed

lemma send_all_failure:
  "k < length cs \<Longrightarrow>
   (\<forall>j<k. dispatch_result w (sent w + j) (snd (cs ! j)) = Inr SUCCESS) \<Longrightarrow>
   dispatch_result w (sent w + k) (snd (cs ! k)) = Inr FAILURE \<Longrightarrow>
     fst (send_all ip cs w) = Inr FAILURE \<and>
     requests (log (snd (send_all ip cs w))) =
       requests (log w) @ map (\<lambda>(c, d). command_url ip c) (take (Suc k) cs)"
proof (induction cs arbitrary: w k)
  case Nil
  then show ?case
    by simp
next
  case (Cons x cs)
  obtain c d where x: "x = (c, d)"
    by (cases x)
  obtain r w' where sc: "send_command ip c d w = (r, w')"
    by (cases "send_command ip c d w")
  from sc have w': "requests (log w') = requests (log w) @ [command_url ip c]"
    "sent w' = Suc (sent w)" "net w' = net w"
    using send_command_world [of ip c d w] by simp_all
  from sc have r: "r = dispatch_result w (sent w) d"
    using send_command_fst [of ip c d w] by simp
  show ?case
  proof (cases k)
    case 0
    with Cons.prems r x have "r = Inr FAILURE"
      by simp
    with x sc w' 0 show ?thesis
      by simp
  next
    case (Suc k')
    with Cons.prems have "dispatch_result w (sent w + 0) (snd ((x # cs) ! 0)) = Inr SUCCESS"
      by blast
    with r x have r': "r = Inr SUCCESS"
      by simp
    have a: "k' < length cs"
      using Cons.prems Suc by simp
    have b: "\<forall>j<k'. dispatch_result w' (sent w' + j) (snd (cs ! j)) = Inr SUCCESS"
    proof (intro allI impI)
      fix j
      assume "j < k'"
      then have "dispatch_result w (sent w + Suc j) (snd ((x # cs) ! Suc j)) = Inr SUCCESS"
        using Cons.prems Suc by auto
      then show "dispatch_result w' (sent w' + j) (snd (cs ! j)) = Inr SUCCESS"
        using w' dispatch_result_cong [of w' w] by simp
    qed
    have c: "dispatch_result w' (sent w' + k') (snd (cs ! k')) = Inr FAILURE"
      using Cons.prems(3) Suc w' dispatch_result_cong [of w' w] by simp
    from Cons.IH [OF a b c] show ?thesis
      using x sc r' w' Suc by simp
  qed
qed

lemma execute_simple:
  "execute (SimpleRobotState n cs) ip w =
     (case fst (send_all ip cs w) of Inl e \<Rightarrow> Inl e | Inr r \<Rightarrow> Inr (Enum r),
      snd (send_all ip cs w))"
  by (simp add: split_beta)

text \<open>
  Claim C4. Let a \<^verbatim>\<open>SimpleRobotState\<close> hold \<open>N\<close> commands. If every dispatch (of the
  \<open>k\<close>-th command, with its delay) returns \<open>SUCCESS\<close>, the requests it adds to the log are
  those of its \<open>N\<close> commands, each once and in the order of the list, and the state returns
  \<open>SUCCESS\<close>. If the \<open>K\<close>-th dispatch (counting from 1) is the first that returns
  \<open>FAILURE\<close>, the requests it adds are those of the first \<open>K\<close> commands, nothing is
  requested for the commands after them, and the state returns \<open>FAILURE\<close>.
\<close>

theorem simple_state_dispatches:
  "((\<forall>k<length cs. dispatch_result w (sent w + k) (snd (cs ! k)) = Inr SUCCESS) \<longrightarrow>
      fst (execute (SimpleRobotState n cs) ip w) = Inr (Enum SUCCESS) \<and>
      requests (log (snd (execute (SimpleRobotState n cs) ip w))) =
        requests (log w) @ map (\<lambda>(c, d). command_url ip c) cs) \<and>
   (1 \<le> K \<and> K \<le> length cs \<and>
    (\<forall>k<K - 1. dispatch_result w (sent w + k) (snd (cs ! k)) = Inr SUCCESS) \<and>
    dispatch_result w (sent w + (K - 1)) (snd (cs ! (K - 1))) = Inr FAILURE \<longrightarrow>
      fst (execute (SimpleRobotState n cs) ip w) = Inr (Enum FAILURE) \<and>
      requests (log (snd (execute (SimpleRobotState n cs) ip w))) =
        requests (log w) @ map (\<lambda>(c, d). command_url ip c) (take K cs))"
proof (intro conjI impI)
  assume ok: "\<forall>k<length cs. dispatch_result w (sent w + k) (snd (cs ! k)) = Inr SUCCESS"
  from send_all_success [OF ok, of ip]
  show "fst (execute (SimpleRobotState n cs) ip w) = Inr (Enum SUCCESS)"
    and "requests (log (snd (execute (SimpleRobotState n cs) ip w))) =
        requests (log w) @ map (\<lambda>(c, d). command_url ip c) cs"
    by (simp_all add: execute_simple del: execute.simps)
next
  assume h: "1 \<le> K \<and> K \<le> length cs \<and>
    (\<forall>k<K - 1. dispatch_result w (sent w + k) (snd (cs ! k)) = Inr SUCCESS) \<and>
    dispatch_result w (sent w + (K - 1)) (snd (cs ! (K - 1))) = Inr FAILURE"
  then have "K - 1 < length cs" and "Suc (K - 1) = K"
    by auto
  with h send_all_failure [of "K - 1" cs w ip]
  show "fst (execute (SimpleRobotState n cs) ip w) = Inr (Enum FAILURE)"
    and "requests (log (snd (execute (SimpleRobotState n cs) ip w))) =
        requests (log w) @ map (\<lambda>(c, d). command_url ip c) (take K cs)"
    by (simp_all add: execute_simple del: execute.simps)
qed

theorem simple_state_dispatches_witness:
  "fst (execute (SimpleRobotState ''S'' [(''a'', 0.1), (''b'', 0), (''c'', 0.2)]) ''h''
          (quiet_world [] (\<lambda>_. Response ''ok''))) = Inr (Enum SUCCESS) \<and>
   requests (log (snd (execute (SimpleRobotState ''S'' [(''a'', 0.1), (''b'', 0), (''c'', 0.2)]) ''h''
          (quiet_world [] (\<lambda>_. Response ''ok''))))) =
     [command_url ''h'' ''a'', command_url ''h'' ''b'', command_url ''h'' ''c''] \<and>
   fst (execute (SimpleRobotState ''S'' [(''a'', 0.1), (''b'', 0), (''c'', 0.2)]) ''h''
          (quiet_world [] (\<lambda>k. if k = 1 then RequestException else Timeout))) = Inr (Enum FAILURE) \<and>
   requests (log (snd (execute (SimpleRobotState ''S'' [(''a'', 0.1), (''b'', 0), (''c'', 0.2)]) ''h''
          (quiet_world [] (\<lambda>k. if k = 1 then RequestException else Timeout))))) =
     [command_url ''h'' ''a'', command_url ''h'' ''b'']"
proof -
  let ?cs = "[(''a'', 0.1), (''b'', 0), (''c'', 0.2)] :: (string \<times> real) list"
  let ?w1 = "quiet_world [] (\<lambda>_. Response ''ok'')"
  let ?w2 = "quiet_world [] (\<lambda>k. if k = 1 then RequestException else Timeout)"
  have a: "\<forall>k<length ?cs. dispatch_result ?w1 (sent ?w1 + k) (snd (?cs ! k)) = Inr SUCCESS"
  proof (intro allI impI)
    fix k
    assume "k < length ?cs"
    then consider "k = 0" | "k = 1" | "k = 2"
      by fastforce
    then show "dispatch_result ?w1 (sent ?w1 + k) (snd (?cs ! k)) = Inr SUCCESS"
      by cases
        (simp_all add: dispatch_result_def send_command_def quiet_world_def after_response_def
          time_sleep_def sleep_overflows_def)
  qed
  have b: "1 \<le> (2::nat) \<and> 2 \<le> length ?cs \<and>
      (\<forall>k<2 - 1. dispatch_result ?w2 (sent ?w2 + k) (snd (?cs ! k)) = Inr SUCCESS) \<and>
      dispatch_result ?w2 (sent ?w2 + (2 - 1)) (snd (?cs ! (2 - 1))) = Inr FAILURE"
    by (simp add: dispatch_result_def send_command_def quiet_world_def)
  from a b
    simple_state_dispatches [where cs = ?cs and w = ?w1 and K = 2 and n = "''S''" and ip = "''h''"]
    simple_state_dispatches [where cs = ?cs and w = ?w2 and K = 2 and n = "''S''" and ip = "''h''"]
  show ?thesis
    by (simp add: quiet_world_def del: execute.simps)
qed

subsection \<open>\<^verbatim>\<open>DropoffSelectionState\<close>\<close>

text \<open>
  What the normalisation \<^verbatim>\<open>.lower().strip()\<close> leaves: no capital letter, no
  white space at either end, and so never the string \<^verbatim>\<open>"REPEAT"\<close>.
\<close>

lemma lower_char_not_upper: "lower_char c \<notin> set upper_chars"
  by (simp add: lower_char_def upper_chars_def lower_chars_def)

lemma set_strip: "set (strip s) \<subseteq> set s"
proof -
  have "set (dropWhile is_space (rev (dropWhile is_space s))) \<subseteq> set (rev (dropWhile is_space s))"
    by (rule set_dropWhileD [THEN subsetI])
  also have "\<dots> \<subseteq> set s"
    using set_dropWhileD [of _ is_space s] by auto
  finally show ?thesis
    by (simp add: strip_def)
qed

lemma normalised_no_capital: "set (strip (lower l)) \<inter> set upper_chars = {}"
  using set_strip [of "lower l"] lower_char_not_upper by (auto simp: lower_def)

lemma normalised_not_REPEAT: "strip (lower l) \<noteq> ''REPEAT''"
proof
  assume "strip (lower l) = ''REPEAT''"
  then have "CHR ''R'' \<in> set (strip (lower l))"
    by simp
  moreover have "CHR ''R'' \<in> set upper_chars"
    by (simp add: upper_chars_def)
  ultimately show False
    using normalised_no_capital [of l] by blast
qed

lemma strip_ends:
  "strip s = [] \<or> (\<not> is_space (hd (strip s)) \<and> \<not> is_space (last (strip s)))"
proof (cases "strip s = []")
  case True
  then show ?thesis by simp
next
  case False
  let ?t = "dropWhile is_space (rev (dropWhile is_space s))"
  from False have ne: "?t \<noteq> []"
    by (simp add: strip_def)
  then have a: "\<not> is_space (hd ?t)"
    by (rule hd_dropWhile)
  have l: "last (strip s) = hd ?t"
    using ne by (simp add: strip_def last_rev)
  have "hd (strip s) = last ?t"
    using ne by (simp add: strip_def hd_rev)
  moreover have "last ?t = last (rev (dropWhile is_space s))"
    using ne by (metis append_Nil2 last_appendR takeWhile_dropWhile_id)
  moreover have ne': "dropWhile is_space s \<noteq> []"
    using ne by (cases "dropWhile is_space s") simp_all
  moreover have "\<not> is_space (hd (dropWhile is_space s))"
    using ne' by (rule hd_dropWhile)
  moreover have "last (rev (dropWhile is_space s)) = hd (dropWhile is_space s)"
    using ne' by (simp add: last_rev)
  ultimately show ?thesis
    using a l by simp
qed

text \<open>
  Claim C7, as stated, fails: an input equal to a known selection key need not give that
  key. The line is lowercased before it is looked up, so with the key \<^verbatim>\<open>"B"\<close> in the
  map the input \<^verbatim>\<open>B\<close> is looked up as \<^verbatim>\<open>b\<close>, is not found, and gives \<open>FAILURE\<close>.
\<close>

theorem dropoff_selection_uppercase_key:
  "''B'' \<in> fst ` set [(''B'', ''Back Dropoff'')] \<and>
   fst (execute (DropoffSelectionState ''Select Dropoff'' [(''B'', ''Back Dropoff'')]) ''192.168.4.1''
          (quiet_world [Line ''B''] (\<lambda>_. Response ''ok''))) = Inr (Enum FAILURE)"
  by (simp add: quiet_world_def input_def lower_def lower_char_def upper_chars_def lower_chars_def strip_def is_space_def)

text \<open>
  Claim C7, amended. A \<^verbatim>\<open>DropoffSelectionState\<close> reads one line, lowercases it and
  strips the white space around it. If the result is \<^verbatim>\<open>s\<close> the state returns
  \<open>SUCCESS\<close>; otherwise, if it is \<^verbatim>\<open>a\<close>, \<open>ABORT\<close>; otherwise, if it is a key of the
  map, that result itself as the selected key; otherwise \<open>FAILURE\<close>. At the end of the
  input and on Ctrl+C the state returns \<open>ABORT\<close>. In every case the state sends nothing:
  the log and the count of requests are as before. A key that the state returns is a key
  of the map and is none of \<^verbatim>\<open>s\<close>, \<^verbatim>\<open>a\<close> and \<^verbatim>\<open>REPEAT\<close>.
\<close>

theorem dropoff_selection_execute:
  "(stdin w = Line l # rest \<longrightarrow>
      execute (DropoffSelectionState n m) ip w =
        (Inr (if strip (lower l) = ''s'' then Enum SUCCESS
              else if strip (lower l) = ''a'' then Enum ABORT
              else if strip (lower l) \<in> fst ` set m then Str (strip (lower l))
              else Enum FAILURE),
         w\<lparr>stdin := rest\<rparr>)) \<and>
   (stdin w = [] \<longrightarrow> execute (DropoffSelectionState n m) ip w = (Inr (Enum ABORT), w)) \<and>
   (stdin w = CtrlC # rest \<longrightarrow>
      execute (DropoffSelectionState n m) ip w = (Inr (Enum ABORT), w\<lparr>stdin := rest\<rparr>)) \<and>
   log (snd (execute (DropoffSelectionState n m) ip w)) = log w \<and>
   sent (snd (execute (DropoffSelectionState n m) ip w)) = sent w \<and>
   (\<forall>k w'. execute (DropoffSelectionState n m) ip w = (Inr (Str k), w') \<longrightarrow>
      k \<in> fst ` set m \<and> k \<noteq> ''s'' \<and> k \<noteq> ''a'' \<and> k \<noteq> ''REPEAT'')"
proof (intro conjI)
  show "\<forall>k w'. execute (DropoffSelectionState n m) ip w = (Inr (Str k), w') \<longrightarrow>
      k \<in> fst ` set m \<and> k \<noteq> ''s'' \<and> k \<noteq> ''a'' \<and> k \<noteq> ''REPEAT''"
    using normalised_not_REPEAT
    by (auto simp: input_def Let_def split: list.splits key_event.splits if_splits)
qed (auto simp: input_def Let_def split: list.splits key_event.splits)

theorem dropoff_selection_execute_witness:
  "execute (DropoffSelectionState ''Select Dropoff'' select_dropoff_map) ''192.168.4.1''
      (quiet_world [Line '' S'', Line ''2''] (\<lambda>_. Response ''ok'')) =
     (Inr (Enum SUCCESS), quiet_world [Line ''2''] (\<lambda>_. Response ''ok'')) \<and>
   execute (DropoffSelectionState ''Select Dropoff'' select_dropoff_map) ''192.168.4.1''
      (quiet_world [Line ''2 ''] (\<lambda>_. Response ''ok'')) =
     (Inr (Str ''2''), quiet_world [] (\<lambda>_. Response ''ok'')) \<and>
   execute (DropoffSelectionState ''Select Dropoff'' select_dropoff_map) ''192.168.4.1''
      (quiet_world [Line ''A''] (\<lambda>_. Response ''ok'')) =
     (Inr (Enum ABORT), quiet_world [] (\<lambda>_. Response ''ok'')) \<and>
   execute (DropoffSelectionState ''Select Dropoff'' select_dropoff_map) ''192.168.4.1''
      (quiet_world [Line ''7''] (\<lambda>_. Response ''ok'')) =
     (Inr (Enum FAILURE), quiet_world [] (\<lambda>_. Response ''ok'')) \<and>
   execute (DropoffSelectionState ''Select Dropoff'' select_dropoff_map) ''192.168.4.1''
      (quiet_world [] (\<lambda>_. Response ''ok'')) =
     (Inr (Enum ABORT), quiet_world [] (\<lambda>_. Response ''ok'')) \<and>
   execute (DropoffSelectionState ''Select Dropoff'' select_dropoff_map) ''192.168.4.1''
      (quiet_world [CtrlC] (\<lambda>_. Response ''ok'')) =
     (Inr (Enum ABORT), quiet_world [] (\<lambda>_. Response ''ok''))"
  using dropoff_selection_execute [where w = "quiet_world [Line '' S'', Line ''2''] (\<lambda>_. Response ''ok'')"
          and l = "'' S''" and rest = "[Line ''2'']" and n = "''Select Dropoff''"
          and m = select_dropoff_map and ip = "''192.168.4.1''"]
        dropoff_selection_execute [where w = "quiet_world [Line ''2 ''] (\<lambda>_. Response ''ok'')"
          and l = "''2 ''" and rest = "[]" and n = "''Select Dropoff''"
          and m = select_dropoff_map and ip = "''192.168.4.1''"]
        dropoff_selection_execute [where w = "quiet_world [Line ''A''] (\<lambda>_. Response ''ok'')"
          and l = "''A''" and rest = "[]" and n = "''Select Dropoff''"
          and m = select_dropoff_map and ip = "''192.168.4.1''"]
        dropoff_selection_execute [where w = "quiet_world [Line ''7''] (\<lambda>_. Response ''ok'')"
          and l = "''7''" and rest = "[]" and n = "''Select Dropoff''"
          and m = select_dropoff_map and ip = "''192.168.4.1''"]
        dropoff_selection_execute [where w = "quiet_world [] (\<lambda>_. Response ''ok'')"
          and l = "''7''" and rest = "[]" and n = "''Select Dropoff''"
          and m = select_dropoff_map and ip = "''192.168.4.1''"]
        dropoff_selection_execute [where w = "quiet_world [CtrlC] (\<lambda>_. Response ''ok'')"
          and l = "''7''" and rest = "[]" and n = "''Select Dropoff''"
          and m = select_dropoff_map and ip = "''192.168.4.1''"]
  by (simp add: quiet_world_def lower_def lower_char_def upper_chars_def lower_chars_def strip_def is_space_def
        select_dropoff_map_def del: execute.simps)

section \<open>Building the sequence\<close>

text \<open>
  Claim C8. \<^verbatim>\<open>add_states_from_sequence\<close> appends, in the order of the names, one state
  made by the factory of each name that the registry has, and reports each name that
  the registry lacks by a warning, in the order of the names, without adding anything for
  it. The function has no failing branch: an unknown name ends nothing.
\<close>

theorem add_states_from_sequence_filters:
  "states (fst (add_states_from_sequence m names w)) =
     states m @
     List.map_filter (\<lambda>nm. map_option (\<lambda>factory. factory ()) (state_registry m nm)) names \<and>
   log (snd (add_states_from_sequence m names w)) =
     log w @ map Warning (filter (\<lambda>nm. state_registry m nm = None) names)"
proof (induction names arbitrary: m w)
  case Nil
  show ?case
    by (simp add: List.map_filter_simps)
next
  case (Cons nm names)
  show ?case
  proof (cases "state_registry m nm")
    case None
    with Cons.IH [of m "emit (Warning nm) w"] show ?thesis
      by (simp add: List.map_filter_simps emit_def)
  next
    case (Some factory)
    with Cons.IH [of "m\<lparr>states := states m @ [factory ()]\<rparr>" w] show ?thesis
      by (simp add: List.map_filter_simps)
  qed
qed


section \<open>The runner\<close>

lemma dropoff_mapping_dom:
  "dropoff_mapping k = Some nm \<Longrightarrow> k \<in> {''1'', ''2'', ''3'', ''4''}"
  by (auto simp: dropoff_mapping_def split: if_splits)

lemma py_index_in_range:
  "0 \<le> i \<Longrightarrow> i < int (length xs) \<Longrightarrow> py_index xs i = Inr (xs ! nat i)"
  by (simp add: py_index_def)

lemma py_insert_in_range:
  "0 \<le> i \<Longrightarrow> i \<le> int (length xs) \<Longrightarrow>
     py_insert xs i x = take (nat i) xs @ x # drop (nat i) xs"
  by (simp add: py_insert_def Let_def min_def)

lemma length_py_insert [simp]: "length (py_insert xs i x) = length xs + 1"
  by (simp add: py_insert_def Let_def)

subsection \<open>Injection\<close>

text \<open>
  Injection at a cursor that points at a step in the ordinary way, \<open>0 \<le> i < length\<close>.
  When that step returns a selection key \<open>k\<close> that \<^verbatim>\<open>dropoff_mapping\<close> knows and whose
  name the registry has, the iteration ends with the cursor at \<open>i + 1\<close> and with a list of
  states that is the old one with exactly one state, made by the factory, put in right
  after position \<open>i\<close>; the world is the one that the selecting step left.
\<close>

lemma select_key_injects:
  assumes "0 \<le> i" and "i < int (length sts)"
    and "execute (sts ! nat i) ip (emit (Starting (i + 1) (length sts) (name (sts ! nat i))) w) =
           (Inr (Str k), w')"
    and "dropoff_mapping k = Some nm" and "reg nm = Some factory"
  shows "\<exists>sts'. loop_body reg ip i sts w = Continue (i + 1) sts' w' \<and>
           sts' = take (nat i + 1) sts @ factory () # drop (nat i + 1) sts \<and>
           length sts' = length sts + 1 \<and>
           take (nat i + 1) sts' = take (nat i + 1) sts \<and>
           drop (nat i + 2) sts' = drop (nat i + 1) sts \<and>
           py_index sts' (i + 1) = Inr (factory ())"
proof -
  let ?sts' = "take (nat i + 1) sts @ factory () # drop (nat i + 1) sts"
  from assms(4) have k: "Str k \<noteq> Str ''REPEAT''"
    using dropoff_mapping_dom by fastforce
  have ins: "py_insert sts (i + 1) (factory ()) = ?sts'"
    using py_insert_in_range [of "i + 1" sts "factory ()"] assms(1,2)
    by (simp add: nat_add_distrib)
  from k assms(4,5) ins have tr: "transition reg i sts (Str k) w' = Continue (i + 1) ?sts' w'"
    by (simp add: transition_def)
  from assms(1,2) have "py_index sts i = Inr (sts ! nat i)"
    by (rule py_index_in_range)
  with assms(3) tr have lb: "loop_body reg ip i sts w = Continue (i + 1) ?sts' w'"
    by (simp add: loop_body_def run_state_def)
  have len: "length (take (nat i + 1) sts) = nat i + 1"
    using assms(1,2) by simp
  have l: "length ?sts' = length sts + 1"
    using assms(1,2) by simp
  have t: "take (nat i + 1) ?sts' = take (nat i + 1) sts"
    using len by simp
  have d: "drop (nat i + 2) ?sts' = drop (nat i + 1) sts"
    using len by simp
  have "?sts' ! (nat i + 1) = factory ()"
    using len by (metis nth_append_length)
  moreover have "nat (i + 1) = nat i + 1"
    using assms(1) by (simp add: nat_add_distrib)
  ultimately have p: "py_index ?sts' (i + 1) = Inr (factory ())"
    using assms(1,2) l by (simp add: py_index_def)
  from lb l t d p show ?thesis
    by blast
qed


text \<open>
  Claim C2 does not hold of the code. The sequence \<^verbatim>\<open>["Home", "Wait", "SelectDropoff"]\<close>
  is built from the registry, the device answers, and the operator types \<^verbatim>\<open>r\<close>,
  \<^verbatim>\<open>1\<close> and an empty line. The wait at cursor 1 returns \<^verbatim>\<open>"REPEAT"\<close> and the cursor
  becomes \<open>-1\<close>, which denotes the selecting step, the last of the list (the log line at
  position 0). It returns the key \<^verbatim>\<open>"1"\<close>, and \<^verbatim>\<open>insert(i + 1, ...)\<close> with
  \<open>i + 1 = 0\<close> puts the new step at the front of the list, not after the selecting step:
  every old step moves one place to the right. The run goes on from cursor 0 through the
  new step, \<^verbatim>\<open>Home\<close> and the wait, and starts the selecting step a second time, where the
  end of the input aborts the run.
\<close>

theorem select_key_at_negative_cursor:
  "fst (run (fst (add_states_from_sequence (new_machine ''192.168.4.1'' (create_state_registry fstr))
         [''Home'', ''Wait'', ''SelectDropoff''] (quiet_world [] (\<lambda>_. Response ''ok''))))
       (quiet_world [Line ''r'', Line ''1'', Line ''''] (\<lambda>_. Response ''ok''))) = Aborted \<and>
   states (fst (snd (run (fst (add_states_from_sequence (new_machine ''192.168.4.1'' (create_state_registry fstr))
         [''Home'', ''Wait'', ''SelectDropoff''] (quiet_world [] (\<lambda>_. Response ''ok''))))
       (quiet_world [Line ''r'', Line ''1'', Line ''''] (\<lambda>_. Response ''ok''))))) =
     [PoseState fstr ''Middle Dropoff'' MIDDLE_DROPOFF_POSES 255,
      PoseState fstr ''Home'' [(HOME_POSE, 0.1)] 255,
      WaitForInputState ''Wait For Input'',
      DropoffSelectionState ''Select Dropoff'' select_dropoff_map] \<and>
   starts (log (snd (snd (run (fst (add_states_from_sequence (new_machine ''192.168.4.1'' (create_state_registry fstr))
         [''Home'', ''Wait'', ''SelectDropoff''] (quiet_world [] (\<lambda>_. Response ''ok''))))
       (quiet_world [Line ''r'', Line ''1'', Line ''''] (\<lambda>_. Response ''ok'')))))) =
     [(1, ''Home''), (2, ''Wait For Input''), (0, ''Select Dropoff''), (1, ''Middle Dropoff''),
      (2, ''Home''), (3, ''Wait For Input''), (4, ''Select Dropoff'')]"
  by (simp add: run_def run_loop.simps loop_body_def run_state_def transition_def py_index_def
      py_insert_def input_def emit_def quiet_world_def lower_def lower_char_def upper_chars_def
      lower_chars_def strip_def is_space_def send_command_def after_response_def time_sleep_def
      sleep_overflows_def new_machine_def create_state_registry_def PoseState_def
      dropoff_mapping_def select_dropoff_map_def MIDDLE_DROPOFF_POSES_def BACK_DROPOFF_POSES_def)

lemma select_returns_key:
  assumes "execute (DropoffSelectionState n m) ip w = (Inr (Str k), w')"
  shows "k \<in> fst ` set m"
proof -
  obtain r w1 where i: "input w = (r, w1)"
    by (cases "input w")
  with assms show ?thesis
    by (auto simp: Let_def split: sum.splits if_splits)
qed

text \<open>
  Claim C10. Whatever key the \<^verbatim>\<open>DropoffSelectionState\<close> of the registry returns, it is
  one of \<^verbatim>\<open>"1"\<close>, \<^verbatim>\<open>"2"\<close>, \<^verbatim>\<open>"3"\<close>, \<^verbatim>\<open>"4"\<close>; \<^verbatim>\<open>dropoff_mapping\<close> maps it to a
  name; the registry has a factory under that name; and so the runner's transition on
  that key injects the state the factory makes and goes on, rather than ending in a
  \<^verbatim>\<open>KeyError\<close>.
\<close>

theorem builtin_selection_resolves:
  assumes "create_state_registry fstr ''SelectDropoff'' = Some factory"
    and "execute (factory ()) ip w = (Inr (Str k), w')"
  shows "k \<in> {''1'', ''2'', ''3'', ''4''} \<and>
         (\<exists>nm made. dropoff_mapping k = Some nm \<and> create_state_registry fstr nm = Some made \<and>
            transition (create_state_registry fstr) i sts (Str k) w' =
              Continue (i + 1) (py_insert sts (i + 1) (made ())) w')"
proof -
  from assms(1) have "factory () = DropoffSelectionState ''Select Dropoff'' select_dropoff_map"
    by (auto simp: create_state_registry_def)
  with assms(2) have "k \<in> fst ` set select_dropoff_map"
    using select_returns_key by metis
  then have k: "k \<in> {''1'', ''2'', ''3'', ''4''}"
    by (simp add: select_dropoff_map_def)
  then consider "k = ''1''" | "k = ''2''" | "k = ''3''" | "k = ''4''"
    by auto
  then have "\<exists>nm made. dropoff_mapping k = Some nm \<and> create_state_registry fstr nm = Some made \<and>
            transition (create_state_registry fstr) i sts (Str k) w' =
              Continue (i + 1) (py_insert sts (i + 1) (made ())) w'"
  proof cases
    case 1
    then show ?thesis
      by (simp add: dropoff_mapping_def create_state_registry_def transition_def)
  next
    case 2
    then show ?thesis
      by (simp add: dropoff_mapping_def create_state_registry_def transition_def)
  next
    case 3
    then show ?thesis
      by (simp add: dropoff_mapping_def create_state_registry_def transition_def)
  next
    case 4
    then show ?thesis
      by (simp add: dropoff_mapping_def create_state_registry_def transition_def)
  qed
  with k show ?thesis
    by blast
qed

theorem builtin_selection_resolves_witness:
  "create_state_registry (\<lambda>_. []) ''SelectDropoff'' =
     Some (\<lambda>_. DropoffSelectionState ''Select Dropoff'' select_dropoff_map) \<and>
   execute (DropoffSelectionState ''Select Dropoff'' select_dropoff_map) ''192.168.4.1''
      (quiet_world [Line ''3''] (\<lambda>_. Timeout)) = (Inr (Str ''3''), quiet_world [] (\<lambda>_. Timeout)) \<and>
   (\<exists>nm made. dropoff_mapping ''3'' = Some nm \<and>
      create_state_registry (\<lambda>_. []) nm = Some made \<and>
      transition (create_state_registry (\<lambda>_. [])) 2 [] (Str ''3'') (quiet_world [] (\<lambda>_. Timeout)) =
        Continue (2 + 1) (py_insert [] (2 + 1) (made ())) (quiet_world [] (\<lambda>_. Timeout)))"
proof -
  have a: "create_state_registry (\<lambda>_. []) ''SelectDropoff'' =
      Some (\<lambda>_. DropoffSelectionState ''Select Dropoff'' select_dropoff_map)"
    by (simp add: create_state_registry_def)
  have b: "execute ((\<lambda>_. DropoffSelectionState ''Select Dropoff'' select_dropoff_map) ()) ''192.168.4.1''
      (quiet_world [Line ''3''] (\<lambda>_. Timeout)) = (Inr (Str ''3''), quiet_world [] (\<lambda>_. Timeout))"
    by (simp add: quiet_world_def input_def lower_def lower_char_def upper_chars_def lower_chars_def strip_def is_space_def
        select_dropoff_map_def)
  from builtin_selection_resolves [OF a b, of 2 "[]"] a b show ?thesis
    by blast
qed

subsection \<open>Rewinding\<close>

text \<open>
  What \<^verbatim>\<open>"REPEAT"\<close> does: the cursor goes back by two and nothing else changes, so the
  next iteration indexes the list at \<open>i - 2\<close>.
\<close>

lemma repeat_rewinds_by_two:
  assumes "py_index sts i = Inr state"
    and "execute state ip (emit (Starting (i + 1) (length sts) (name state)) w) =
           (Inr (Str ''REPEAT''), w')"
  shows "loop_body reg ip i sts w = Continue (i - 2) sts w'"
  using assms by (simp add: loop_body_def run_state_def transition_def)

text \<open>
  Claim C1 does not hold of the code. In both runs the sequence is built from the
  registry and the device answers.

  In the first the sequence is \<^verbatim>\<open>["Home", "BackDropoff", "Wait"]\<close> and the operator types
  \<^verbatim>\<open>r\<close> once. The wait at cursor 2 (position 3) returns \<^verbatim>\<open>"REPEAT"\<close>; the step
  started next is \<^verbatim>\<open>Home\<close> at cursor 0, not \<^verbatim>\<open>Back Dropoff\<close>, the step at cursor 1,
  although the prompt of the wait reads ``Repeat previous state''.

  In the second the sequence is \<^verbatim>\<open>["Home", "Wait"]\<close> and the operator types \<^verbatim>\<open>r\<close>
  twice. The wait at cursor 1 returns \<^verbatim>\<open>"REPEAT"\<close> and the cursor becomes \<open>-1\<close>; the
  step started next is the wait itself (position 0), not \<^verbatim>\<open>Home\<close>. It returns
  \<^verbatim>\<open>"REPEAT"\<close> again, the cursor becomes \<open>-3\<close>, and indexing raises \<^verbatim>\<open>IndexError\<close>,
  which nothing catches: two repeats in a row have ended the run of a two-step sequence.
\<close>

theorem repeat_restarts_two_back:
  "fst (run (fst (add_states_from_sequence (new_machine ''192.168.4.1'' (create_state_registry fstr))
         [''Home'', ''BackDropoff'', ''Wait''] (quiet_world [] (\<lambda>_. Response ''ok''))))
       (quiet_world [Line ''r''] (\<lambda>_. Response ''ok''))) = Aborted \<and>
   starts (log (snd (snd (run (fst (add_states_from_sequence (new_machine ''192.168.4.1'' (create_state_registry fstr))
         [''Home'', ''BackDropoff'', ''Wait''] (quiet_world [] (\<lambda>_. Response ''ok''))))
       (quiet_world [Line ''r''] (\<lambda>_. Response ''ok'')))))) =
     [(1, ''Home''), (2, ''Back Dropoff''), (3, ''Wait For Input''),
      (1, ''Home''), (2, ''Back Dropoff''), (3, ''Wait For Input'')] \<and>
   fst (run (fst (add_states_from_sequence (new_machine ''192.168.4.1'' (create_state_registry fstr))
         [''Home'', ''Wait''] (quiet_world [] (\<lambda>_. Response ''ok''))))
       (quiet_world [Line ''r'', Line ''r''] (\<lambda>_. Response ''ok''))) = Uncaught IndexError \<and>
   starts (log (snd (snd (run (fst (add_states_from_sequence (new_machine ''192.168.4.1'' (create_state_registry fstr))
         [''Home'', ''Wait''] (quiet_world [] (\<lambda>_. Response ''ok''))))
       (quiet_world [Line ''r'', Line ''r''] (\<lambda>_. Response ''ok'')))))) =
     [(1, ''Home''), (2, ''Wait For Input''), (0, ''Wait For Input'')]"
  by (simp add: run_def run_loop.simps loop_body_def run_state_def transition_def py_index_def
      py_insert_def input_def emit_def quiet_world_def lower_def lower_char_def upper_chars_def
      lower_chars_def strip_def is_space_def send_command_def after_response_def time_sleep_def
      sleep_overflows_def new_machine_def create_state_registry_def PoseState_def
      dropoff_mapping_def select_dropoff_map_def MIDDLE_DROPOFF_POSES_def BACK_DROPOFF_POSES_def)

text \<open>
  Claim C9. At a negative cursor \<open>n\<close> that is still within the length of the list, the
  loop does not stop and does not go to position 0: its body starts and executes the
  state at index \<open>length + n\<close>, and what that state returns decides how the loop goes on
  (with \<open>SUCCESS\<close> at \<open>n + 1\<close>, with \<^verbatim>\<open>"REPEAT"\<close> at \<open>n - 2\<close>; \<open>ABORT\<close> and \<open>FAILURE\<close>
  end the run as aborted and as failed). At a negative cursor beyond the length of the
  list, indexing raises \<^verbatim>\<open>IndexError\<close>, which no clause of \<^verbatim>\<open>run\<close> catches: the loop
  ends with that exception and not as completed, failed or aborted.
\<close>

theorem negative_cursor:
  "(n < 0 \<and> - n \<le> int (length sts) \<longrightarrow>
      (let state = sts ! nat (int (length sts) + n);
           ran = execute state ip (emit (Starting (n + 1) (length sts) (name state)) w)
       in loop_body reg ip n sts w =
            (case fst ran of
               Inl e \<Rightarrow> Halt (raised e) sts (snd ran)
             | Inr result \<Rightarrow> transition reg n sts result (snd ran)) \<and>
          (fst ran = Inr (Enum SUCCESS) \<longrightarrow>
             run_loop reg ip n sts w = run_loop reg ip (n + 1) sts (snd ran)) \<and>
          (fst ran = Inr (Str ''REPEAT'') \<longrightarrow>
             run_loop reg ip n sts w = run_loop reg ip (n - 2) sts (snd ran)) \<and>
          (fst ran = Inr (Enum ABORT) \<longrightarrow>
             run_loop reg ip n sts w = (Aborted, sts, snd ran)) \<and>
          (fst ran = Inr (Enum FAILURE) \<longrightarrow>
             run_loop reg ip n sts w = (Failed, sts, snd ran)))) \<and>
   (n < 0 \<and> int (length sts) < - n \<longrightarrow>
      run_loop reg ip n sts w = (Uncaught IndexError, sts, w))"
proof (intro conjI impI)
  assume h: "n < 0 \<and> - n \<le> int (length sts)"
  let ?state = "sts ! nat (int (length sts) + n)"
  let ?ran = "execute ?state ip (emit (Starting (n + 1) (length sts) (name ?state)) w)"
  from h have at: "py_index sts n = Inr ?state"
    by (simp add: py_index_def)
  have lb: "loop_body reg ip n sts w =
      (case fst ?ran of
         Inl e \<Rightarrow> Halt (raised e) sts (snd ?ran)
       | Inr result \<Rightarrow> transition reg n sts result (snd ?ran))"
    using at by (simp add: loop_body_def run_state_def split_beta split: sum.splits)
  from h have lt: "n < int (length sts)"
    by simp
  have rl: "run_loop reg ip n sts w =
      (case loop_body reg ip n sts w of
         Continue i' sts' w' \<Rightarrow> run_loop reg ip i' sts' w'
       | Halt e sts' w' \<Rightarrow> (e, sts', w'))"
    using lt by (subst run_loop.simps) simp
  have a: "fst ?ran = Inr (Enum SUCCESS) \<longrightarrow>
      run_loop reg ip n sts w = run_loop reg ip (n + 1) sts (snd ?ran)"
    using rl lb by (simp add: transition_def)
  have b: "fst ?ran = Inr (Str ''REPEAT'') \<longrightarrow>
      run_loop reg ip n sts w = run_loop reg ip (n - 2) sts (snd ?ran)"
    using rl lb by (simp add: transition_def)
  have c: "fst ?ran = Inr (Enum ABORT) \<longrightarrow> run_loop reg ip n sts w = (Aborted, sts, snd ?ran)"
    using rl lb by (simp add: transition_def)
  have d: "fst ?ran = Inr (Enum FAILURE) \<longrightarrow> run_loop reg ip n sts w = (Failed, sts, snd ?ran)"
    using rl lb by (simp add: transition_def)
  from lb a b c d
  show "let state = sts ! nat (int (length sts) + n);
            ran = execute state ip (emit (Starting (n + 1) (length sts) (name state)) w)
        in loop_body reg ip n sts w =
             (case fst ran of
                Inl e \<Rightarrow> Halt (raised e) sts (snd ran)
              | Inr result \<Rightarrow> transition reg n sts result (snd ran)) \<and>
           (fst ran = Inr (Enum SUCCESS) \<longrightarrow>
              run_loop reg ip n sts w = run_loop reg ip (n + 1) sts (snd ran)) \<and>
           (fst ran = Inr (Str ''REPEAT'') \<longrightarrow>
              run_loop reg ip n sts w = run_loop reg ip (n - 2) sts (snd ran)) \<and>
           (fst ran = Inr (Enum ABORT) \<longrightarrow>
              run_loop reg ip n sts w = (Aborted, sts, snd ran)) \<and>
           (fst ran = Inr (Enum FAILURE) \<longrightarrow>
              run_loop reg ip n sts w = (Failed, sts, snd ran))"
    unfolding Let_def by blast
next
  assume h: "n < 0 \<and> int (length sts) < - n"
  then have "py_index sts n = Inl IndexError"
    by (simp add: py_index_def)
  then have "loop_body reg ip n sts w = Halt (Uncaught IndexError) sts w"
    by (simp add: loop_body_def)
  moreover from h have "n < int (length sts)"
    by simp
  ultimately show "run_loop reg ip n sts w = (Uncaught IndexError, sts, w)"
    by (subst run_loop.simps) simp
qed

theorem negative_cursor_witness:
  "run_loop Map.empty ''192.168.4.1'' (- 1)
      [SimpleRobotState ''Home'' [(''home'', 0.1)], WaitForInputState ''Wait For Input'']
      (quiet_world [Line ''r''] (\<lambda>_. Timeout)) =
     (Uncaught IndexError,
      [SimpleRobotState ''Home'' [(''home'', 0.1)], WaitForInputState ''Wait For Input''],
      \<lparr>stdin = [], net = \<lambda>_. Timeout, sent = 0, log = [Starting 0 2 ''Wait For Input'']\<rparr>)"
proof -
  let ?sts = "[SimpleRobotState ''Home'' [(''home'', 0.1)], WaitForInputState ''Wait For Input'']"
  let ?w = "quiet_world [Line ''r''] (\<lambda>_. Timeout)"
  let ?w' = "\<lparr>stdin = [], net = \<lambda>_. Timeout, sent = 0, log = [Starting 0 2 ''Wait For Input'']\<rparr>"
  have h1: "(- 1::int) < 0 \<and> - (- 1) \<le> int (length ?sts)"
    by simp
  have h2: "(- 3::int) < 0 \<and> int (length ?sts) < - (- 3)"
    by simp
  have ex: "execute (?sts ! nat (int (length ?sts) + - 1)) ''192.168.4.1''
      (emit (Starting (- 1 + 1) (length ?sts) (name (?sts ! nat (int (length ?sts) + - 1)))) ?w) =
      (Inr (Str ''REPEAT''), ?w')"
    by (simp add: quiet_world_def emit_def input_def lower_def lower_char_def upper_chars_def
        lower_chars_def strip_def is_space_def)
  from h1 ex negative_cursor [where n = "- 1" and reg = Map.empty and ip = "''192.168.4.1''"
      and sts = ?sts and w = ?w]
  have a: "run_loop Map.empty ''192.168.4.1'' (- 1) ?sts ?w =
      run_loop Map.empty ''192.168.4.1'' (- 1 - 2) ?sts ?w'"
    by (simp add: Let_def)
  from h2 negative_cursor [where n = "- 3" and reg = Map.empty and ip = "''192.168.4.1''"
      and sts = ?sts and w = ?w']
  have b: "run_loop Map.empty ''192.168.4.1'' (- 3) ?sts ?w' = (Uncaught IndexError, ?sts, ?w')"
    by blast
  from a b show ?thesis
    by simp
qed

subsection \<open>The cursor and the length of the sequence\<close>

lemma loop_body_Continue_shape:
  assumes "loop_body reg ip i sts w = Continue i' sts' w'"
  shows "i' \<le> i + 1 \<and> (sts' = sts \<or> (\<exists>x. sts' = py_insert sts (i + 1) x))"
proof -
  from assms obtain state where "run_state reg ip i sts state w = Continue i' sts' w'"
    by (auto simp: loop_body_def split: sum.splits)
  then obtain result w1 where "transition reg i sts result w1 = Continue i' sts' w'"
    by (auto simp: run_state_def split: sum.splits prod.splits)
  then show ?thesis
    by (auto simp: transition_def split: if_splits option.splits)
qed

text \<open>
  The half of the invariant that the code keeps: the cursor never passes the length of
  the list, and the list never gets shorter.
\<close>

lemma visits_upper_bound:
  assumes "visits reg ip s0 s"
  shows "fst s0 \<le> int (length (fst (snd s0))) \<Longrightarrow>
     fst s \<le> int (length (fst (snd s))) \<and> length (fst (snd s0)) \<le> length (fst (snd s))"
  using assms
proof (induction rule: visits.induct)
  case visits_start
  then show ?case
    by simp
next
  case (visits_step i sts w i' sts' w')
  from loop_body_Continue_shape [OF visits_step.hyps(3)] visits_step.hyps(2)
    visits_step.IH visits_step.prems
  show ?case
    by auto
qed

text \<open>
  Claim C3 does not hold of the code: the cursor leaves the range from 0 to the length.
  With the sequence \<^verbatim>\<open>["Home", "Wait"]\<close>, a device that answers and an operator who
  types \<^verbatim>\<open>r\<close>, the loop that starts at cursor 0 comes to its head with the cursor at
  \<open>-1\<close>.
\<close>

theorem repeat_reaches_negative_cursor:
  "visits (create_state_registry fstr) ''192.168.4.1''
     (0, [PoseState fstr ''Home'' [(HOME_POSE, 0.1)] 255, WaitForInputState ''Wait For Input''],
      quiet_world [Line ''r''] (\<lambda>_. Response ''ok''))
     (- 1, [PoseState fstr ''Home'' [(HOME_POSE, 0.1)] 255, WaitForInputState ''Wait For Input''],
      \<lparr>stdin = [], net = \<lambda>_. Response ''ok'', sent = 1,
        log = [Starting 1 2 ''Home'',
               Request (command_url ''192.168.4.1'' (make_t102_command fstr HOME_POSE 0 255)),
               Sleep 0.1,
               Starting 2 2 ''Wait For Input'']\<rparr>)"
proof -
  let ?reg = "create_state_registry fstr"
  let ?sts = "[PoseState fstr ''Home'' [(HOME_POSE, 0.1)] 255, WaitForInputState ''Wait For Input'']"
  let ?w0 = "quiet_world [Line ''r''] (\<lambda>_. Response ''ok'')"
  let ?w1 = "\<lparr>stdin = [Line ''r''], net = \<lambda>_. Response ''ok'', sent = 1,
        log = [Starting 1 2 ''Home'',
               Request (command_url ''192.168.4.1'' (make_t102_command fstr HOME_POSE 0 255)),
               Sleep 0.1]\<rparr>"
  have s1: "loop_body ?reg ''192.168.4.1'' 0 ?sts ?w0 = Continue 1 ?sts ?w1"
    by (simp add: loop_body_def run_state_def transition_def py_index_def emit_def quiet_world_def
        send_command_def after_response_def time_sleep_def sleep_overflows_def PoseState_def)
  have s2: "loop_body ?reg ''192.168.4.1'' 1 ?sts ?w1 =
      Continue (- 1) ?sts (emit (Starting 2 2 ''Wait For Input'') (?w1\<lparr>stdin := []\<rparr>))"
    by (simp add: loop_body_def run_state_def transition_def py_index_def emit_def input_def
        lower_def lower_char_def upper_chars_def lower_chars_def strip_def is_space_def)
  have v1: "visits ?reg ''192.168.4.1'' (0, ?sts, ?w0) (1, ?sts, ?w1)"
    using visits_step [OF visits_start _ s1] by simp
  show ?thesis
    using visits_step [OF v1 _ s2] by (simp add: emit_def)
qed


end
